theory Spec2Isabelle
  imports Main
begin

section \<open>Rendered trees\<close>

text \<open>
  A component of the application returns a JSX tree. An element carries its tag (the name
  of a markup tag or of a component), its props in the order written, and its children; a
  run of text between tags is a text node, with the whitespace of the source laid out as
  JSX does (lines trimmed, line breaks inside a run joined by one space). A prop written
  without a value (\<^verbatim>\<open>asChild\<close>) is the boolean true.
\<close>

datatype jsvalue = JStr string | JBool bool

datatype node =
    Text string
  | Element string "(string \<times> jsvalue) list" "node list"

fun tag_of :: "node \<Rightarrow> string option" where
  "tag_of (Text s) = None"
| "tag_of (Element t ps cs) = Some t"

fun prop_of :: "string \<Rightarrow> node \<Rightarrow> jsvalue option" where
  "prop_of k (Text s) = None"
| "prop_of k (Element t ps cs) = map_of ps k"

fun children_of :: "node \<Rightarrow> node list" where
  "children_of (Text s) = []"
| "children_of (Element t ps cs) = cs"

text \<open>All nodes of a tree, the tree itself first, in document order.\<close>

fun subnodes :: "node \<Rightarrow> node list" where
  "subnodes (Text s) = [Text s]"
| "subnodes (Element t ps cs) = Element t ps cs # concat (map subnodes cs)"

text \<open>The text of a tree: its text nodes in document order.\<close>

fun texts :: "node \<Rightarrow> string list" where
  "texts (Text s) = [s]"
| "texts (Element t ps cs) = concat (map texts cs)"

text \<open>The elements of a tree that carry a given tag, and the tags that occur in it.\<close>

definition elements_named :: "string \<Rightarrow> node \<Rightarrow> node list" where
  "elements_named t n = filter (\<lambda>e. tag_of e = Some t) (subnodes n)"

definition tags :: "node \<Rightarrow> string list" where
  "tags n = concat (map (\<lambda>e. case tag_of e of None \<Rightarrow> [] | Some t \<Rightarrow> [t]) (subnodes n))"

text \<open>The first element with a given tag, in document order.\<close>

fun find_first :: "string \<Rightarrow> node list \<Rightarrow> node option" where
  "find_first t [] = None"
| "find_first t (Text s # rest) = find_first t rest"
| "find_first t (Element u ps cs # rest) =
     (if u = t then Some (Element u ps cs)
      else (case find_first t cs of
              Some e \<Rightarrow> Some e
            | None \<Rightarrow> find_first t rest))"

text \<open>The string-valued \<^verbatim>\<open>href\<close> props of the \<^verbatim>\<open>Link\<close> elements of a tree.\<close>

definition href_of :: "node \<Rightarrow> string list" where
  "href_of e = (case prop_of ''href'' e of Some (JStr u) \<Rightarrow> [u] | _ \<Rightarrow> [])"

definition link_targets :: "node \<Rightarrow> string list" where
  "link_targets n = concat (map href_of (elements_named ''Link'' n))"

section \<open>The landing page\<close>

text \<open>
  The tree that \<^verbatim>\<open>Home\<close> returns, section by section as the source marks them.
\<close>

definition hero_section :: node where
  "hero_section =
    Element ''section''
      [(''className'', JStr ''flex flex-col items-center justify-center px-4 py-24 md:py-32 bg-gradient-to-b from-background to-muted/20'')]
      [Element ''div'' [(''className'', JStr ''container max-w-6xl mx-auto text-center'')]
        [Element ''Badge'' [(''variant'', JStr ''secondary''), (''className'', JStr ''mb-4'')]
           [Text ''Free & Open Source''],
         Element ''h1'' [(''className'', JStr ''text-4xl md:text-6xl font-bold tracking-tight mb-6'')]
           [Text ''Shorten Links.'',
            Element ''br'' [] [],
            Element ''span'' [(''className'', JStr ''text-primary'')] [Text ''Track Results.'']],
         Element ''p'' [(''className'', JStr ''text-xl text-muted-foreground max-w-2xl mx-auto mb-8'')]
           [Text ''Create short, memorable links in seconds. Track clicks, analyze performance, and share with confidence. Your all-in-one URL shortening solution.''],
         Element ''div'' [(''className'', JStr ''flex flex-col sm:flex-row gap-4 justify-center'')]
           [Element ''Button'' [(''asChild'', JBool True), (''size'', JStr ''lg''), (''className'', JStr ''text-lg'')]
              [Element ''Link'' [(''href'', JStr ''/sign-up'')] [Text ''Get Started Free'']],
            Element ''Button''
              [(''asChild'', JBool True), (''size'', JStr ''lg''), (''variant'', JStr ''outline''),
               (''className'', JStr ''text-lg'')]
              [Element ''Link'' [(''href'', JStr ''/sign-in'')] [Text ''Sign In'']]]]]"

definition features_section :: node where
  "features_section =
    Element ''section'' [(''className'', JStr ''py-24 px-4'')]
      [Element ''div'' [(''className'', JStr ''container max-w-6xl mx-auto'')]
        [Element ''div'' [(''className'', JStr ''text-center mb-16'')]
           [Element ''h2'' [(''className'', JStr ''text-3xl md:text-5xl font-bold mb-4'')]
              [Text ''Everything You Need''],
            Element ''p'' [(''className'', JStr ''text-xl text-muted-foreground max-w-2xl mx-auto'')]
              [Text ''Powerful features to help you manage and track your shortened links'']],
         Element ''div'' [(''className'', JStr ''grid grid-cols-1 md:grid-cols-2 gap-6'')]
           [Element ''Card'' [(''className'', JStr ''hover:shadow-lg transition-shadow'')]
              [Element ''CardHeader'' []
                 [Element ''div'' [(''className'', JStr ''flex items-center gap-3'')]
                    [Element ''div'' [(''className'', JStr ''p-2 bg-primary/10 rounded-lg'')]
                       [Element ''Zap'' [(''className'', JStr ''h-6 w-6 text-primary'')] []],
                     Element ''CardTitle'' [] [Text ''Lightning Fast'']]],
               Element ''CardContent'' []
                 [Element ''CardDescription'' [(''className'', JStr ''text-base'')]
                    [Text ''Create short links instantly with custom aliases. No waiting, no hassle. Just paste your URL and go.'']]],
            Element ''Card'' [(''className'', JStr ''hover:shadow-lg transition-shadow'')]
              [Element ''CardHeader'' []
                 [Element ''div'' [(''className'', JStr ''flex items-center gap-3'')]
                    [Element ''div'' [(''className'', JStr ''p-2 bg-primary/10 rounded-lg'')]
                       [Element ''BarChart3'' [(''className'', JStr ''h-6 w-6 text-primary'')] []],
                     Element ''CardTitle'' [] [Text ''Analytics & Tracking'']]],
               Element ''CardContent'' []
                 [Element ''CardDescription'' [(''className'', JStr ''text-base'')]
                    [Text ''Track clicks, analyze traffic patterns, and measure your link performance with detailed analytics.'']]],
            Element ''Card'' [(''className'', JStr ''hover:shadow-lg transition-shadow'')]
              [Element ''CardHeader'' []
                 [Element ''div'' [(''className'', JStr ''flex items-center gap-3'')]
                    [Element ''div'' [(''className'', JStr ''p-2 bg-primary/10 rounded-lg'')]
                       [Element ''Link2'' [(''className'', JStr ''h-6 w-6 text-primary'')] []],
                     Element ''CardTitle'' [] [Text ''Custom Short Codes'']]],
               Element ''CardContent'' []
                 [Element ''CardDescription'' [(''className'', JStr ''text-base'')]
                    [Text ''Choose your own branded short codes to make your links memorable and professional.'']]],
            Element ''Card'' [(''className'', JStr ''hover:shadow-lg transition-shadow'')]
              [Element ''CardHeader'' []
                 [Element ''div'' [(''className'', JStr ''flex items-center gap-3'')]
                    [Element ''div'' [(''className'', JStr ''p-2 bg-primary/10 rounded-lg'')]
                       [Element ''Shield'' [(''className'', JStr ''h-6 w-6 text-primary'')] []],
                     Element ''CardTitle'' [] [Text ''Secure & Reliable'']]],
               Element ''CardContent'' []
                 [Element ''CardDescription'' [(''className'', JStr ''text-base'')]
                    [Text ''Your links are safe with enterprise-grade security. Built on modern infrastructure for 99.9% uptime.'']]]]]]"

definition cta_section :: node where
  "cta_section =
    Element ''section'' [(''className'', JStr ''py-24 px-4 bg-muted/30'')]
      [Element ''div'' [(''className'', JStr ''container max-w-4xl mx-auto text-center'')]
        [Element ''h2'' [(''className'', JStr ''text-3xl md:text-5xl font-bold mb-6'')]
           [Text ''Ready to Get Started?''],
         Element ''p'' [(''className'', JStr ''text-xl text-muted-foreground mb-8 max-w-2xl mx-auto'')]
           [Text ''Join thousands of users who trust our platform for their link shortening needs. Create your free account today.''],
         Element ''Button'' [(''asChild'', JBool True), (''size'', JStr ''lg''), (''className'', JStr ''text-lg'')]
           [Element ''Link'' [(''href'', JStr ''/sign-up'')] [Text ''Create Your Free Account'']]]]"

definition marketing :: node where
  "marketing =
    Element ''div'' [(''className'', JStr ''flex min-h-screen flex-col'')]
      [hero_section, features_section, cta_section]"

section \<open>The request to the landing route\<close>

text \<open>
  Modelled from the spec: the external state a request runs against. The authentication
  provider and the database are collaborators outside the source; the state holds the
  provider's answer to the current-caller query (an opaque user identifier, or none) and,
  in \<open>stored\<close>, everything else that is kept outside the component (link records,
  counters, session state), of any type.
\<close>

record 'a world =
  caller :: "string option"
  stored :: 'a

text \<open>
  The steps of the pipeline the specification names. A run records every step it takes,
  in order.
\<close>

datatype step = AuthLookup | RedirectTo string | DatabaseRead | TemplateRender

type_synonym 'a run = "'a world \<times> step list"

text \<open>
  \<^verbatim>\<open>redirect\<close> of the framework does not return: it throws, and the framework
  answers the request with the redirect. The throw is a value of the result.
\<close>

datatype control = NEXT_REDIRECT string

type_synonym response = "control + node"

record auth_object =
  userId :: "string option"

text \<open>
  Modelled from the spec: \<^verbatim>\<open>auth()\<close>, the provider's current-caller query. It reads
  the state and changes nothing.
\<close>

definition auth :: "'a run \<Rightarrow> auth_object \<times> 'a run" where
  "auth r = (\<lparr>userId = caller (fst r)\<rparr>, (fst r, snd r @ [AuthLookup]))"

definition redirect :: "string \<Rightarrow> 'a run \<Rightarrow> response \<times> 'a run" where
  "redirect url r = (Inl (NEXT_REDIRECT url), (fst r, snd r @ [RedirectTo url]))"

definition render :: "node \<Rightarrow> 'a run \<Rightarrow> response \<times> 'a run" where
  "render v r = (Inr v, (fst r, snd r @ [TemplateRender]))"

text \<open>
  The component, with the returned tree elided:
  \<^verbatim>\<open>
  export default async function Home() {
    const { userId } = await auth();
    if (userId) {
      redirect('/dashboard');
    }
    return ( <div className="flex min-h-screen flex-col"> ... </div> );
  }
  \<close>
  The test \<^verbatim>\<open>if (userId)\<close> is JavaScript's truthiness: of the values of
  \<^verbatim>\<open>string | null\<close>, \<^verbatim>\<open>null\<close> and the empty string are falsy. The
  provider names a signed-in caller by a non-empty identifier, so on the answers of the
  query the test separates the callers with an identifier from those without.
\<close>

fun truthy :: "string option \<Rightarrow> bool" where
  "truthy None = False"
| "truthy (Some s) = (s \<noteq> [])"

definition Home :: "'a run \<Rightarrow> response \<times> 'a run" where
  "Home r =
    (case auth r of
       (a, r1) \<Rightarrow>
         if truthy (userId a) then redirect ''/dashboard'' r1
         else render marketing r1)"

text \<open>A request to \<^verbatim>\<open>/\<close>: the component runs on the state, from an empty record of steps.\<close>

definition request_root :: "'a world \<Rightarrow> response \<times> 'a run" where
  "request_root w = Home (w, [])"

definition response_of :: "'a world \<Rightarrow> response" where
  "response_of w = fst (request_root w)"

definition state_after :: "'a world \<Rightarrow> 'a world" where
  "state_after w = fst (snd (request_root w))"

definition steps_of :: "'a world \<Rightarrow> step list" where
  "steps_of w = snd (snd (request_root w))"

text \<open>What a response shows and where it sends the caller.\<close>

fun rendered_texts :: "response \<Rightarrow> string list" where
  "rendered_texts (Inl c) = []"
| "rendered_texts (Inr v) = texts v"

fun rendered_nodes :: "response \<Rightarrow> node list" where
  "rendered_nodes (Inl c) = []"
| "rendered_nodes (Inr v) = subnodes v"

fun rendered_tags :: "response \<Rightarrow> string list" where
  "rendered_tags (Inl c) = []"
| "rendered_tags (Inr v) = tags v"

fun redirect_target :: "response \<Rightarrow> string option" where
  "redirect_target (Inl (NEXT_REDIRECT url)) = Some url"
| "redirect_target (Inr v) = None"

text \<open>The \<^verbatim>\<open>href\<close> targets a response links to: none when the request is redirected.\<close>

fun response_links :: "response \<Rightarrow> string list" where
  "response_links (Inl c) = []"
| "response_links (Inr v) = link_targets v"

text \<open>The text inside the elements of a given tag, as for the \<^verbatim>\<open>h1\<close> heading.\<close>

definition texts_in :: "string \<Rightarrow> node \<Rightarrow> string list" where
  "texts_in t n = concat (map texts (elements_named t n))"

fun response_texts_in :: "string \<Rightarrow> response \<Rightarrow> string list" where
  "response_texts_in t (Inl c) = []"
| "response_texts_in t (Inr v) = texts_in t v"

text \<open>
  A call to action is a \<^verbatim>\<open>Button\<close> that wraps a \<^verbatim>\<open>Link\<close>; its targets are the
  \<^verbatim>\<open>href\<close>s of the links directly inside a button.
\<close>

definition cta_targets :: "node \<Rightarrow> string list" where
  "cta_targets n =
     concat (map (\<lambda>b. concat (map href_of (filter (\<lambda>e. tag_of e = Some ''Link'') (children_of b))))
                 (elements_named ''Button'' n))"

fun response_cta_targets :: "response \<Rightarrow> string list" where
  "response_cta_targets (Inl c) = []"
| "response_cta_targets (Inr v) = cta_targets v"

section \<open>The layout\<close>

record Metadata =
  title :: string
  description :: string

definition metadata :: Metadata where
  "metadata =
    \<lparr>title = ''Link Shortener - Shorten Links & Track Results'',
     description = ''Create short, memorable links in seconds. Track clicks, analyze performance, and share with confidence.''\<rparr>"

text \<open>
  \<^verbatim>\<open>RootLayout\<close> wraps the page it is given, \<open>children\<close>, which follows the header
  inside the body.
\<close>

definition RootLayout :: "node list \<Rightarrow> node" where
  "RootLayout children =
    Element ''ClerkProvider'' []
      [Element ''html'' [(''lang'', JStr ''en''), (''className'', JStr ''dark'')]
        [Element ''body'' [(''className'', JStr ''antialiased font-sans'')]
          (Element ''header'' [(''className'', JStr ''bg-gray-950 border-b border-gray-800'')]
            [Element ''div''
               [(''className'', JStr ''container mx-auto px-4 h-14 flex items-center justify-between'')]
               [Element ''div'' [(''className'', JStr ''font-bold text-lg text-white'')]
                  [Text ''Link Shortener''],
                Element ''div'' [(''className'', JStr ''flex items-center gap-4'')]
                  [Element ''SignedOut'' []
                     [Element ''SignInButton'' [(''mode'', JStr ''modal'')]
                        [Element ''Button''
                           [(''variant'', JStr ''ghost''),
                            (''className'', JStr ''text-gray-300 hover:text-white'')]
                           [Text ''Sign In'']],
                      Element ''SignUpButton'' [(''mode'', JStr ''modal'')]
                        [Element ''Button''
                           [(''className'', JStr ''bg-white text-black hover:bg-gray-100 hover:text-black'')]
                           [Text ''Sign Up'']]],
                   Element ''SignedIn'' []
                     [Element ''UserButton'' [] []]]]]
           # children)]]"

text \<open>
  Modelled from the spec: the provider's conditional-rendering primitives, which are not
  part of the source. They are keyed on the signed-in / signed-out state:
  \<^verbatim>\<open>SignedOut\<close> shows its children when no caller is signed in and nothing otherwise,
  \<^verbatim>\<open>SignedIn\<close> the reverse. Every other element is shown as it is, its children
  treated the same way.
\<close>

fun shown :: "bool \<Rightarrow> node list \<Rightarrow> node list" where
  "shown signed_in [] = []"
| "shown signed_in (Text s # rest) = Text s # shown signed_in rest"
| "shown signed_in (Element t ps cs # rest) =
     (if t = ''SignedOut'' then (if signed_in then [] else shown signed_in cs)
      else if t = ''SignedIn'' then (if signed_in then shown signed_in cs else [])
      else [Element t ps (shown signed_in cs)])
     @ shown signed_in rest"

text \<open>The document shown for a page, and its header: the first \<^verbatim>\<open>header\<close> element.\<close>

definition document :: "bool \<Rightarrow> node list \<Rightarrow> node list" where
  "document signed_in children = shown signed_in [RootLayout children]"

definition header_of :: "bool \<Rightarrow> node list \<Rightarrow> node option" where
  "header_of signed_in children = find_first ''header'' (document signed_in children)"

definition header_tags :: "bool \<Rightarrow> node list \<Rightarrow> string list" where
  "header_tags signed_in children =
     (case header_of signed_in children of None \<Rightarrow> [] | Some h \<Rightarrow> tags h)"

definition header_texts :: "bool \<Rightarrow> node list \<Rightarrow> string list" where
  "header_texts signed_in children =
     (case header_of signed_in children of None \<Rightarrow> [] | Some h \<Rightarrow> texts h)"

section \<open>Properties of the landing route\<close>

lemma request_root_falsy:
  "\<not> truthy (caller w) \<Longrightarrow> request_root w = (Inr marketing, (w, [AuthLookup, TemplateRender]))"
  by (simp add: request_root_def Home_def auth_def render_def)

lemma request_root_truthy:
  "truthy (caller w) \<Longrightarrow>
     request_root w = (Inl (NEXT_REDIRECT ''/dashboard''), (w, [AuthLookup, RedirectTo ''/dashboard'']))"
  by (simp add: request_root_def Home_def auth_def redirect_def)

lemma response_of_falsy: "\<not> truthy (caller w) \<Longrightarrow> response_of w = Inr marketing"
  by (simp add: response_of_def request_root_falsy)

lemma response_of_truthy:
  "truthy (caller w) \<Longrightarrow> response_of w = Inl (NEXT_REDIRECT ''/dashboard'')"
  by (simp add: response_of_def request_root_truthy)

lemmas marketing_defs =
  marketing_def hero_section_def features_section_def cta_section_def

lemma h1_marketing: "texts_in ''h1'' marketing = [''Shorten Links.'', ''Track Results.'']"
  by (simp add: texts_in_def elements_named_def marketing_defs)

lemma link_targets_marketing: "link_targets marketing = [''/sign-up'', ''/sign-in'', ''/sign-up'']"
  by (simp add: link_targets_def href_of_def elements_named_def marketing_defs)

lemma cta_targets_marketing: "cta_targets marketing = [''/sign-up'', ''/sign-in'', ''/sign-up'']"
  by (simp add: cta_targets_def href_of_def elements_named_def marketing_defs)

lemma texts_marketing:
  "texts marketing =
     [''Free & Open Source'', ''Shorten Links.'', ''Track Results.'',
      ''Create short, memorable links in seconds. Track clicks, analyze performance, and share with confidence. Your all-in-one URL shortening solution.'',
      ''Get Started Free'', ''Sign In'', ''Everything You Need'',
      ''Powerful features to help you manage and track your shortened links'',
      ''Lightning Fast'',
      ''Create short links instantly with custom aliases. No waiting, no hassle. Just paste your URL and go.'',
      ''Analytics & Tracking'',
      ''Track clicks, analyze traffic patterns, and measure your link performance with detailed analytics.'',
      ''Custom Short Codes'',
      ''Choose your own branded short codes to make your links memorable and professional.'',
      ''Secure & Reliable'',
      ''Your links are safe with enterprise-grade security. Built on modern infrastructure for 99.9% uptime.'',
      ''Ready to Get Started?'',
      ''Join thousands of users who trust our platform for their link shortening needs. Create your free account today.'',
      ''Create Your Free Account'']"
  by (simp add: marketing_defs)

lemma tags_marketing:
  "tags marketing =
     [''div'', ''section'', ''div'', ''Badge'', ''h1'', ''br'', ''span'', ''p'',
      ''div'', ''Button'', ''Link'', ''Button'', ''Link'', ''section'', ''div'',
      ''div'', ''h2'', ''p'', ''div'', ''Card'', ''CardHeader'', ''div'',
      ''div'', ''Zap'', ''CardTitle'', ''CardContent'', ''CardDescription'',
      ''Card'', ''CardHeader'', ''div'', ''div'', ''BarChart3'', ''CardTitle'',
      ''CardContent'', ''CardDescription'', ''Card'', ''CardHeader'', ''div'',
      ''div'', ''Link2'', ''CardTitle'', ''CardContent'', ''CardDescription'',
      ''Card'', ''CardHeader'', ''div'', ''div'', ''Shield'', ''CardTitle'',
      ''CardContent'', ''CardDescription'', ''section'', ''div'', ''h2'', ''p'',
      ''Button'', ''Link'']"
  by (simp add: tags_def marketing_defs)

text \<open>
  C1. For every caller for whom the authentication query returns a user identifier, the
  request to \<^verbatim>\<open>/\<close> ends in the redirect to \<^verbatim>\<open>/dashboard\<close>, and none of the
  marketing content is rendered: the response holds no node, no text and no link, and no
  render step is taken. A user identifier is a non-empty string: the provider names no
  signed-in caller by the empty string.
\<close>

theorem authenticated_redirects_to_dashboard:
  assumes "caller w = Some uid" and "uid \<noteq> []"
  shows "response_of w = Inl (NEXT_REDIRECT ''/dashboard'')
         \<and> redirect_target (response_of w) = Some ''/dashboard''
         \<and> rendered_nodes (response_of w) = []
         \<and> rendered_texts (response_of w) = []
         \<and> response_links (response_of w) = []
         \<and> steps_of w = [AuthLookup, RedirectTo ''/dashboard'']"
  using assms by (simp add: response_of_truthy steps_of_def request_root_truthy)

theorem authenticated_redirects_to_dashboard_witness:
  "caller \<lparr>caller = Some ''user_1'', stored = ()\<rparr> = Some ''user_1''
   \<and> ''user_1'' \<noteq> []
   \<and> response_of \<lparr>caller = Some ''user_1'', stored = ()\<rparr> = Inl (NEXT_REDIRECT ''/dashboard'')
   \<and> rendered_nodes (response_of \<lparr>caller = Some ''user_1'', stored = ()\<rparr>) = []
   \<and> steps_of \<lparr>caller = Some ''user_1'', stored = ()\<rparr> = [AuthLookup, RedirectTo ''/dashboard'']"
  using authenticated_redirects_to_dashboard
          [of "\<lparr>caller = Some ''user_1'', stored = ()\<rparr>" "''user_1''"]
  by simp

text \<open>
  C2. For every caller for whom the authentication query returns no user identifier, the
  request to \<^verbatim>\<open>/\<close> renders the static marketing content and issues no redirect. The
  content is stated as the page has it: the nineteen runs of text from the badge to the
  last call to action, the fifty-seven elements by tag in document order, the heading,
  and the three links; the steps taken are the lookup and the render.
\<close>

theorem unauthenticated_renders_marketing:
  assumes "caller w = None"
  shows "response_of w = Inr marketing
         \<and> rendered_texts (response_of w) =
             [''Free & Open Source'', ''Shorten Links.'', ''Track Results.'',
              ''Create short, memorable links in seconds. Track clicks, analyze performance, and share with confidence. Your all-in-one URL shortening solution.'',
              ''Get Started Free'', ''Sign In'', ''Everything You Need'',
              ''Powerful features to help you manage and track your shortened links'',
              ''Lightning Fast'',
              ''Create short links instantly with custom aliases. No waiting, no hassle. Just paste your URL and go.'',
              ''Analytics & Tracking'',
              ''Track clicks, analyze traffic patterns, and measure your link performance with detailed analytics.'',
              ''Custom Short Codes'',
              ''Choose your own branded short codes to make your links memorable and professional.'',
              ''Secure & Reliable'',
              ''Your links are safe with enterprise-grade security. Built on modern infrastructure for 99.9% uptime.'',
              ''Ready to Get Started?'',
              ''Join thousands of users who trust our platform for their link shortening needs. Create your free account today.'',
              ''Create Your Free Account'']
         \<and> rendered_tags (response_of w) =
             [''div'', ''section'', ''div'', ''Badge'', ''h1'', ''br'', ''span'', ''p'',
              ''div'', ''Button'', ''Link'', ''Button'', ''Link'', ''section'', ''div'',
              ''div'', ''h2'', ''p'', ''div'', ''Card'', ''CardHeader'', ''div'',
              ''div'', ''Zap'', ''CardTitle'', ''CardContent'', ''CardDescription'',
              ''Card'', ''CardHeader'', ''div'', ''div'', ''BarChart3'', ''CardTitle'',
              ''CardContent'', ''CardDescription'', ''Card'', ''CardHeader'', ''div'',
              ''div'', ''Link2'', ''CardTitle'', ''CardContent'', ''CardDescription'',
              ''Card'', ''CardHeader'', ''div'', ''div'', ''Shield'', ''CardTitle'',
              ''CardContent'', ''CardDescription'', ''section'', ''div'', ''h2'', ''p'',
              ''Button'', ''Link'']
         \<and> response_texts_in ''h1'' (response_of w) = [''Shorten Links.'', ''Track Results.'']
         \<and> response_links (response_of w) = [''/sign-up'', ''/sign-in'', ''/sign-up'']
         \<and> redirect_target (response_of w) = None
         \<and> steps_of w = [AuthLookup, TemplateRender]"
  using assms
  by (simp add: response_of_falsy steps_of_def request_root_falsy
        texts_marketing tags_marketing h1_marketing link_targets_marketing)

theorem unauthenticated_renders_marketing_witness:
  "caller \<lparr>caller = None, stored = ()\<rparr> = None
   \<and> response_texts_in ''h1'' (response_of \<lparr>caller = None, stored = ()\<rparr>)
       = [''Shorten Links.'', ''Track Results.'']
   \<and> response_links (response_of \<lparr>caller = None, stored = ()\<rparr>)
       = [''/sign-up'', ''/sign-in'', ''/sign-up'']
   \<and> length (rendered_texts (response_of \<lparr>caller = None, stored = ()\<rparr>)) = 19
   \<and> length (rendered_tags (response_of \<lparr>caller = None, stored = ()\<rparr>)) = 57
   \<and> redirect_target (response_of \<lparr>caller = None, stored = ()\<rparr>) = None
   \<and> steps_of \<lparr>caller = None, stored = ()\<rparr> = [AuthLookup, TemplateRender]"
proof -
  have none: "caller \<lparr>caller = None, stored = ()\<rparr> = None"
    by simp
  from unauthenticated_renders_marketing [OF none] show ?thesis
    by auto
qed

text \<open>
  C4. For a request to \<^verbatim>\<open>/\<close> with no session token, the response contains the
  heading text "Shorten Links." (in its \<^verbatim>\<open>h1\<close>) and a call to action linking to
  \<^verbatim>\<open>/sign-up\<close>; for a request with a valid session token, one for which the provider
  names the user by a (non-empty) identifier, the response is the redirect to
  \<^verbatim>\<open>/dashboard\<close> and contains no marketing markup: no node, no text and no link.
\<close>

theorem landing_scenario:
  "(caller w = None \<longrightarrow>
      ''Shorten Links.'' \<in> set (response_texts_in ''h1'' (response_of w))
      \<and> ''/sign-up'' \<in> set (response_cta_targets (response_of w)))
   \<and> (caller w' = Some uid \<and> uid \<noteq> [] \<longrightarrow>
      redirect_target (response_of w') = Some ''/dashboard''
      \<and> rendered_nodes (response_of w') = []
      \<and> rendered_texts (response_of w') = []
      \<and> response_links (response_of w') = [])"
  by (simp add: response_of_falsy response_of_truthy h1_marketing cta_targets_marketing)

theorem landing_scenario_witness:
  "caller \<lparr>caller = None, stored = ()\<rparr> = None
   \<and> ''Shorten Links.'' \<in> set (response_texts_in ''h1'' (response_of \<lparr>caller = None, stored = ()\<rparr>))
   \<and> ''/sign-up'' \<in> set (response_cta_targets (response_of \<lparr>caller = None, stored = ()\<rparr>))
   \<and> caller \<lparr>caller = Some ''user_2'', stored = ()\<rparr> = Some ''user_2''
   \<and> ''user_2'' \<noteq> []
   \<and> redirect_target (response_of \<lparr>caller = Some ''user_2'', stored = ()\<rparr>) = Some ''/dashboard''
   \<and> rendered_nodes (response_of \<lparr>caller = Some ''user_2'', stored = ()\<rparr>) = []"
  using landing_scenario
          [of "\<lparr>caller = None, stored = ()\<rparr>" "\<lparr>caller = Some ''user_2'', stored = ()\<rparr>" "''user_2''"]
  by simp

text \<open>
  C5, at the request of a signed-out caller: the landing page links to the routes
  \<^verbatim>\<open>/sign-up\<close> and \<^verbatim>\<open>/sign-in\<close> with plain navigation links, three in all, where
  the repository's authentication rules ask for the provider's modal components and
  forbid sending the caller to separate sign-in or sign-up pages.
\<close>

theorem landing_links_to_sign_pages:
  "response_links (response_of \<lparr>caller = None, stored = ()\<rparr>) = [''/sign-up'', ''/sign-in'', ''/sign-up'']"
  by (simp add: response_of_falsy link_targets_marketing)

text \<open>
  C6, as stated: every request goes through authentication lookup, conditional redirect,
  database read and template render, in this order. The request of a signed-out caller to
  \<^verbatim>\<open>/\<close> takes the lookup and the render and reads no database.
\<close>

theorem landing_reads_no_database:
  "steps_of \<lparr>caller = None, stored = ()\<rparr> = [AuthLookup, TemplateRender]
   \<and> DatabaseRead \<notin> set (steps_of \<lparr>caller = None, stored = ()\<rparr>)"
  by (simp add: steps_of_def request_root_falsy)

text \<open>
  C6, amended: every request to \<^verbatim>\<open>/\<close> takes exactly these steps, in this order: the
  authentication lookup, then either the redirect to \<^verbatim>\<open>/dashboard\<close> (for a truthy
  identifier, with no render) or the template render (otherwise, with no redirect). No
  database read is on this path.
\<close>

theorem landing_pipeline:
  "steps_of w =
     (if truthy (caller w) then [AuthLookup, RedirectTo ''/dashboard'']
      else [AuthLookup, TemplateRender])
   \<and> DatabaseRead \<notin> set (steps_of w)"
  by (simp add: steps_of_def request_root_falsy request_root_truthy)

text \<open>
  C7. Handling a request to \<^verbatim>\<open>/\<close> has no side effect, for any caller and any stored
  state: the state after the request is the state before it, in every field.
\<close>

theorem landing_has_no_side_effects: "state_after w = w"
  by (cases "truthy (caller w)") (simp_all add: state_after_def request_root_falsy request_root_truthy)

text \<open>
  C9. The response to \<^verbatim>\<open>/\<close> depends only on whether the authentication query returns
  a user identifier, not on its value nor on anything stored: any two authenticated
  callers, whatever their (non-empty) identifiers, get the identical redirect to
  \<^verbatim>\<open>/dashboard\<close>, and any two unauthenticated requests get the identical marketing
  page.
\<close>

theorem response_independent_of_identifier:
  "(caller w1 = Some u1 \<and> u1 \<noteq> [] \<and> caller w2 = Some u2 \<and> u2 \<noteq> [] \<longrightarrow>
      response_of w1 = response_of w2
      \<and> response_of w1 = Inl (NEXT_REDIRECT ''/dashboard''))
   \<and> (caller w1 = None \<and> caller w2 = None \<longrightarrow>
      response_of w1 = response_of w2
      \<and> response_of w1 = Inr marketing
      \<and> rendered_texts (response_of w1) = rendered_texts (response_of w2)
      \<and> rendered_nodes (response_of w1) = rendered_nodes (response_of w2))"
  by (simp add: response_of_falsy response_of_truthy)

theorem response_independent_of_identifier_witness:
  "caller \<lparr>caller = Some ''user_4'', stored = (0::nat)\<rparr> = Some ''user_4''
   \<and> ''user_4'' \<noteq> []
   \<and> caller \<lparr>caller = Some ''user_5'', stored = (7::nat)\<rparr> = Some ''user_5''
   \<and> ''user_5'' \<noteq> []
   \<and> response_of \<lparr>caller = Some ''user_4'', stored = (0::nat)\<rparr>
     = response_of \<lparr>caller = Some ''user_5'', stored = (7::nat)\<rparr>
   \<and> response_of \<lparr>caller = Some ''user_4'', stored = (0::nat)\<rparr> = Inl (NEXT_REDIRECT ''/dashboard'')
   \<and> caller \<lparr>caller = None, stored = (1::nat)\<rparr> = None
   \<and> caller \<lparr>caller = None, stored = (2::nat)\<rparr> = None
   \<and> response_of \<lparr>caller = None, stored = (1::nat)\<rparr>
     = response_of \<lparr>caller = None, stored = (2::nat)\<rparr>"
  using response_independent_of_identifier
          [of "\<lparr>caller = Some ''user_4'', stored = (0::nat)\<rparr>" "''user_4''"
              "\<lparr>caller = Some ''user_5'', stored = (7::nat)\<rparr>" "''user_5''"]
        response_independent_of_identifier
          [of "\<lparr>caller = None, stored = (1::nat)\<rparr>" "[]"
              "\<lparr>caller = None, stored = (2::nat)\<rparr>" "[]"]
  by auto

section \<open>Properties of the layout\<close>

lemma header_of_layout:
  "header_of signed_in children =
     Some (Element ''header'' [(''className'', JStr ''bg-gray-950 border-b border-gray-800'')]
            [Element ''div''
               [(''className'', JStr ''container mx-auto px-4 h-14 flex items-center justify-between'')]
               [Element ''div'' [(''className'', JStr ''font-bold text-lg text-white'')]
                  [Text ''Link Shortener''],
                Element ''div'' [(''className'', JStr ''flex items-center gap-4'')]
                  (if signed_in then [Element ''UserButton'' [] []]
                   else
                     [Element ''SignInButton'' [(''mode'', JStr ''modal'')]
                        [Element ''Button''
                           [(''variant'', JStr ''ghost''),
                            (''className'', JStr ''text-gray-300 hover:text-white'')]
                           [Text ''Sign In'']],
                      Element ''SignUpButton'' [(''mode'', JStr ''modal'')]
                        [Element ''Button''
                           [(''className'', JStr ''bg-white text-black hover:bg-gray-100 hover:text-black'')]
                           [Text ''Sign Up'']]])]])"
  by (simp add: header_of_def document_def RootLayout_def)

lemma header_tags_layout:
  "header_tags signed_in children =
     (if signed_in then [''header'', ''div'', ''div'', ''div'', ''UserButton'']
      else [''header'', ''div'', ''div'', ''div'', ''SignInButton'', ''Button'', ''SignUpButton'', ''Button''])"
  by (simp add: header_tags_def header_of_layout tags_def)

lemma header_texts_layout:
  "header_texts signed_in children =
     (if signed_in then [''Link Shortener''] else [''Link Shortener'', ''Sign In'', ''Sign Up''])"
  by (simp add: header_texts_def header_of_layout)

text \<open>
  C3. On every page (whatever \<open>children\<close> the layout wraps), the header shows the sign-in
  and the sign-up control exactly when no caller is signed in, and the user menu exactly
  when one is; so the two sets of controls are never shown together and never both absent.
\<close>

theorem header_controls:
  "(''SignInButton'' \<in> set (header_tags signed_in children) \<longleftrightarrow> \<not> signed_in)
   \<and> (''SignUpButton'' \<in> set (header_tags signed_in children) \<longleftrightarrow> \<not> signed_in)
   \<and> (''UserButton'' \<in> set (header_tags signed_in children) \<longleftrightarrow> signed_in)"
  by (simp add: header_tags_layout)

text \<open>
  C10. The title of the document metadata is the constant
  "Link Shortener - Shorten Links & Track Results", and the header contains the brand text
  "Link Shortener" for every page and in either authentication state.
\<close>

theorem constant_title_and_brand:
  "title metadata = ''Link Shortener - Shorten Links & Track Results''
   \<and> ''Link Shortener'' \<in> set (header_texts signed_in children)"
  by (simp add: metadata_def header_texts_layout)

end
